theory Spec2Isabelle
  imports Main "HOL-Library.AList"
begin

section \<open>Text primitives\<close>

text \<open>
  Strings are lists of 8-bit characters, so the page text is modelled in the Latin-1
  range. The character classes are those of the regular expressions of the sources,
  restricted to that range: \<^verbatim>\<open>\d\<close> is an ASCII digit, \<^verbatim>\<open>\s\<close> of JavaScript is tab, line
  feed, vertical tab, form feed, carriage return, space and the no-break space.
\<close>

definition is_digit :: "char \<Rightarrow> bool" where
  "is_digit c = (c \<in> set ''0123456789'')"

definition js_space :: "char \<Rightarrow> bool" where
  "js_space c = (of_char c \<in> set [9, 10, 11, 12, 13, 32, 160 :: nat])"

text \<open>
  White space of Python (\<^verbatim>\<open>str.strip\<close>, \<^verbatim>\<open>\s\<close> of \<^verbatim>\<open>re\<close> on \<^verbatim>\<open>str\<close>) in the same range: it
  adds the four separators 28 to 31 and the next-line character 133.
\<close>

definition py_space :: "char \<Rightarrow> bool" where
  "py_space c = (of_char c \<in> set [9, 10, 11, 12, 13, 28, 29, 30, 31, 32, 133, 160 :: nat])"

text \<open>
  \<^verbatim>\<open>toLowerCase\<close> and \<^verbatim>\<open>str.lower\<close> on one character: the ASCII letters, and the Latin-1 capitals
  192 to 222 but the multiplication sign 215.
\<close>

definition toLowerCase :: "char \<Rightarrow> char" where
  "toLowerCase c =
     (let n = of_char c :: nat
      in if (65 \<le> n \<and> n \<le> 90) \<or> (192 \<le> n \<and> n \<le> 222 \<and> n \<noteq> 215)
         then char_of (n + 32) else c)"

text \<open>\<^verbatim>\<open>s.includes(sub)\<close>, \<^verbatim>\<open>sub in s\<close>: \<open>sub\<close> occurs in \<open>s\<close> as a contiguous run.\<close>

fun str_includes :: "string \<Rightarrow> string \<Rightarrow> bool" where
  "str_includes [] sub = (sub = [])"
| "str_includes (c # cs) sub = (take (length sub) (c # cs) = sub \<or> str_includes cs sub)"

text \<open>\<^verbatim>\<open>String.prototype.trim\<close> and \<^verbatim>\<open>str.strip()\<close>.\<close>

definition js_trim :: "string \<Rightarrow> string" where
  "js_trim s = rev (dropWhile js_space (rev (dropWhile js_space s)))"

definition py_strip :: "string \<Rightarrow> string" where
  "py_strip s = rev (dropWhile py_space (rev (dropWhile py_space s)))"

text \<open>
  \<^verbatim>\<open>parseInt(m[1], 10)\<close> and \<^verbatim>\<open>int(m.group(1))\<close> on a run of digits, as a natural number.
  JavaScript computes in double precision, which is exact below \<open>2 ^ 53\<close>.
\<close>

definition digit_val :: "char \<Rightarrow> nat" where
  "digit_val c = of_char c - 48"

definition parseInt :: "string \<Rightarrow> nat" where
  "parseInt ds = foldl (\<lambda>acc c. 10 * acc + digit_val c) 0 ds"

text \<open>
  \<^verbatim>\<open>/(\d+)\s*%/\<close> anchored at the head of the string. The digits and the white space
  are matched greedily; backtracking cannot help, since giving back a digit leaves a
  digit where white space or the percent sign is expected, and giving back white space
  leaves white space where the percent sign is expected.
\<close>

definition percent_at :: "string \<Rightarrow> nat option" where
  "percent_at s =
     (let ds = takeWhile is_digit s;
          r = dropWhile js_space (dropWhile is_digit s)
      in if ds \<noteq> [] \<and> r \<noteq> [] \<and> hd r = CHR ''%'' then Some (parseInt ds) else None)"

text \<open>\<^verbatim>\<open>text.match(percentRe)\<close>: the leftmost position with a match; \<^verbatim>\<open>null\<close> is None.\<close>

fun percentRe :: "string \<Rightarrow> nat option" where
  "percentRe [] = None"
| "percentRe (c # cs) =
     (case percent_at (c # cs) of Some v \<Rightarrow> Some v | None \<Rightarrow> percentRe cs)"

text \<open>
  \<^verbatim>\<open>/Weighted\s+(\d+)%\s+of category/i\<close> anchored at the head of the string. Every
  repetition is followed by a character outside its class, so the greedy match is the
  only one.
\<close>

definition weighted_at :: "string \<Rightarrow> nat option" where
  "weighted_at s =
     (let r1 = drop 8 s;
          r2 = dropWhile js_space r1;
          ds = takeWhile is_digit r2;
          r3 = dropWhile is_digit r2;
          r4 = drop 1 r3;
          r5 = dropWhile js_space r4
      in if map toLowerCase (take 8 s) = ''weighted''
            \<and> r1 \<noteq> [] \<and> js_space (hd r1)
            \<and> ds \<noteq> []
            \<and> r3 \<noteq> [] \<and> hd r3 = CHR ''%''
            \<and> r4 \<noteq> [] \<and> js_space (hd r4)
            \<and> map toLowerCase (take 11 r5) = ''of category''
         then Some (parseInt ds) else None)"

text \<open>\<^verbatim>\<open>t.match(/Weighted\s+(\d+)%\s+of category/i)\<close>: the leftmost match.\<close>

fun weightedRe :: "string \<Rightarrow> nat option" where
  "weightedRe [] = None"
| "weightedRe (c # cs) =
     (case weighted_at (c # cs) of Some v \<Rightarrow> Some v | None \<Rightarrow> weightedRe cs)"

text \<open>
  The pattern of \<^verbatim>\<open>get_category_weights\<close>,
  \<^verbatim>\<open>re.escape(title) + r".{0,300}?(\d+)\s*%\s*weight"\<close> with \<^verbatim>\<open>IGNORECASE | DOTALL\<close>.
  First its tail \<^verbatim>\<open>(\d+)\s*%\s*weight\<close> anchored at the head of the string.
\<close>

definition weight_tail_at :: "string \<Rightarrow> nat option" where
  "weight_tail_at s =
     (let ds = takeWhile is_digit s;
          r1 = dropWhile py_space (dropWhile is_digit s);
          r2 = dropWhile py_space (drop 1 r1)
      in if ds \<noteq> [] \<and> r1 \<noteq> [] \<and> hd r1 = CHR ''%''
            \<and> map toLowerCase (take 6 r2) = ''weight''
         then Some (parseInt ds) else None)"

text \<open>
  The lazy \<^verbatim>\<open>.{0,300}?\<close>: the tail is tried after 0, 1, 2, ... skipped characters (any
  character, by \<^verbatim>\<open>DOTALL\<close>), \<open>k\<close> being the number of characters that may still be skipped.
\<close>

fun lazy_window :: "nat \<Rightarrow> string \<Rightarrow> nat option" where
  "lazy_window k s =
     (case weight_tail_at s of
        Some v \<Rightarrow> Some v
      | None \<Rightarrow>
          (case k of
             0 \<Rightarrow> None
           | Suc k' \<Rightarrow> (case s of [] \<Rightarrow> None | c # cs \<Rightarrow> lazy_window k' cs)))"

definition category_weight_at :: "string \<Rightarrow> string \<Rightarrow> nat option" where
  "category_weight_at title s =
     (if map toLowerCase (take (length title) s) = map toLowerCase title
      then lazy_window 300 (drop (length title) s) else None)"

text \<open>\<^verbatim>\<open>re.search\<close>: the leftmost position of the title from which the pattern matches.\<close>

fun category_weight_re :: "string \<Rightarrow> string \<Rightarrow> nat option" where
  "category_weight_re title [] = category_weight_at title []"
| "category_weight_re title (c # cs) =
     (case category_weight_at title (c # cs) of
        Some v \<Rightarrow> Some v
      | None \<Rightarrow> category_weight_re title cs)"

section \<open>The document tree\<close>

text \<open>
  A node is an element (its \<^verbatim>\<open>tagName\<close> in upper case as the DOM reports it for HTML
  elements, its attributes, its child nodes) or a text node.
\<close>

datatype node = Element string "(string \<times> string) list" "node list" | TextNode string

fun is_element :: "node \<Rightarrow> bool" where
  "is_element (Element t a ks) = True"
| "is_element (TextNode s) = False"

fun tagName :: "node \<Rightarrow> string" where
  "tagName (Element t a ks) = t"
| "tagName (TextNode s) = []"

fun attributes :: "node \<Rightarrow> (string \<times> string) list" where
  "attributes (Element t a ks) = a"
| "attributes (TextNode s) = []"

fun childNodes :: "node \<Rightarrow> node list" where
  "childNodes (Element t a ks) = ks"
| "childNodes (TextNode s) = []"

fun textContent :: "node \<Rightarrow> string" where
  "textContent (TextNode s) = s"
| "textContent (Element t a ks) = concat (map textContent ks)"

section \<open>Region slicer\<close>

text \<open>
  The chain \<^verbatim>\<open>h2.nextElementSibling\<close>, \<^verbatim>\<open>.nextElementSibling\<close>, ... of the heading that is
  child number \<open>i\<close> of its parent, whose child nodes are \<open>kids\<close>: the elements among the
  later children, text nodes skipped.
\<close>

definition nextElementSiblings :: "node list \<Rightarrow> nat \<Rightarrow> node list" where
  "nextElementSiblings kids i = filter is_element (drop (Suc i) kids)"

text \<open>
  \<^verbatim>\<open>while (n && n.tagName !== 'H2') { regionNodes.push(n); n = n.nextElementSibling; }\<close>
  with the chain of \<open>n\<close> as a list and \<^verbatim>\<open>regionNodes\<close> as the accumulator.
\<close>

fun region_loop :: "node list \<Rightarrow> node list \<Rightarrow> node list" where
  "region_loop [] regionNodes = regionNodes"
| "region_loop (n # ns) regionNodes =
     (if tagName n \<noteq> ''H2'' then region_loop ns (regionNodes @ [n]) else regionNodes)"

definition regionNodes :: "node list \<Rightarrow> nat \<Rightarrow> node list" where
  "regionNodes kids i = region_loop (nextElementSiblings kids i) []"

section \<open>Elements inside a tree\<close>

text \<open>
  An element inside a tree is named by its path from the root: the child indices, root
  first. The root has the empty path.
\<close>

type_synonym path = "nat list"

fun node_at :: "node \<Rightarrow> path \<Rightarrow> node option" where
  "node_at n [] = Some n"
| "node_at (Element t a ks) (i # p) = (if i < length ks then node_at (ks ! i) p else None)"
| "node_at (TextNode s) (i # p) = None"

text \<open>The proper descendants of a node in document order (a node before its children).\<close>

fun descendant_paths :: "node \<Rightarrow> path list"
  and child_paths :: "nat \<Rightarrow> node list \<Rightarrow> path list" where
  "descendant_paths (TextNode s) = []"
| "descendant_paths (Element t a ks) = child_paths 0 ks"
| "child_paths i [] = []"
| "child_paths i (k # ks) =
     [i] # map ((#) i) (descendant_paths k) @ child_paths (Suc i) ks"

text \<open>
  \<^verbatim>\<open>el.parentElement\<close> inside a detached tree: the root has none (\<^verbatim>\<open>null\<close> is None).
\<close>

definition parentElement :: "path \<Rightarrow> path option" where
  "parentElement p = (if p = [] then None else Some (butlast p))"

text \<open>
  The chain \<^verbatim>\<open>el.nextElementSibling\<close>, ... of the element at path \<open>p\<close> of the tree; the
  root of a detached tree has no sibling.
\<close>

definition nextElementSiblings_at :: "node \<Rightarrow> path \<Rightarrow> node list" where
  "nextElementSiblings_at root p =
     (if p = [] then []
      else case node_at root (butlast p) of
             None \<Rightarrow> []
           | Some parent \<Rightarrow> nextElementSiblings (childNodes parent) (last p))"

text \<open>\<^verbatim>\<open>el.getAttribute(name)\<close>, \<^verbatim>\<open>el.className\<close> (the empty string when the attribute is missing).\<close>

definition getAttribute :: "node \<Rightarrow> string \<Rightarrow> string option" where
  "getAttribute n name = map_of (attributes n) name"

definition className :: "node \<Rightarrow> string" where
  "className n = (case getAttribute n ''class'' of None \<Rightarrow> [] | Some c \<Rightarrow> c)"

section \<open>Score extractor\<close>

text \<open>
  \<^verbatim>\<open>region.querySelectorAll(`a[href*="/cell/${cslug}/${categorySlug}"]`)\<close>: the descendants
  of the region, in document order, that are \<^verbatim>\<open>a\<close> elements and whose \<^verbatim>\<open>href\<close> contains the
  string.
\<close>

definition anchor_matches :: "string \<Rightarrow> string \<Rightarrow> node \<Rightarrow> bool" where
  "anchor_matches cslug categorySlug n =
     (is_element n \<and> tagName n = ''A''
      \<and> (case getAttribute n ''href'' of
            None \<Rightarrow> False
          | Some h \<Rightarrow> str_includes h (''/cell/'' @ cslug @ ''/'' @ categorySlug)))"

definition anchors :: "node \<Rightarrow> string \<Rightarrow> string \<Rightarrow> path list" where
  "anchors region cslug categorySlug =
     filter (\<lambda>p. case node_at region p of
                    None \<Rightarrow> False
                  | Some n \<Rightarrow> anchor_matches cslug categorySlug n)
            (descendant_paths region)"

text \<open>
  \<^verbatim>\<open>isCardish(el)\<close>, for an element that exists: the lower-cased class name contains one of
  the five hints.
\<close>

definition isCardish :: "node \<Rightarrow> bool" where
  "isCardish el =
     (let c = map toLowerCase (className el)
      in str_includes c ''card'' \<or> str_includes c ''grid'' \<or> str_includes c ''panel''
         \<or> str_includes c ''tile'' \<or> str_includes c ''item'')"

definition isCardish_at :: "node \<Rightarrow> path \<Rightarrow> bool" where
  "isCardish_at region p =
     (case node_at region p of None \<Rightarrow> False | Some el \<Rightarrow> is_element el \<and> isCardish el)"

text \<open>
  \<^verbatim>\<open>let container = a; for (let i=0; i<6 && container; i++) { if (isCardish(container))
  break; container = container.parentElement; }\<close>. The first argument counts the rounds
  that are left, the last is \<^verbatim>\<open>container\<close>; the result is \<^verbatim>\<open>container\<close> after the loop.
\<close>

fun climb :: "nat \<Rightarrow> node \<Rightarrow> path option \<Rightarrow> path option" where
  "climb 0 region container = container"
| "climb (Suc k) region None = None"
| "climb (Suc k) region (Some p) =
     (if isCardish_at region p then Some p else climb k region (parentElement p))"

text \<open>
  \<^verbatim>\<open>a.closest('a, div, li, article, section')\<close>: the first of the element and its ancestors,
  innermost first, whose tag is in the list.
\<close>

function inclusive_ancestors :: "path \<Rightarrow> path list" where
  "inclusive_ancestors p = (if p = [] then [[]] else p # inclusive_ancestors (butlast p))"
  by pat_completeness auto
termination
  by (relation "measure length") auto

definition closest :: "node \<Rightarrow> path \<Rightarrow> string list \<Rightarrow> path option" where
  "closest region p tags =
     find (\<lambda>q. case node_at region q of
                  None \<Rightarrow> False
                | Some n \<Rightarrow> is_element n \<and> tagName n \<in> set tags)
          (inclusive_ancestors p)"

text \<open>
  The container of an anchor: the result of the climb, and when that is \<^verbatim>\<open>null\<close>,
  \<^verbatim>\<open>a.closest('a, div, li, article, section') || a.parentElement || a\<close>.
\<close>

definition container_of :: "node \<Rightarrow> path \<Rightarrow> path" where
  "container_of region a =
     (case climb 6 region (Some a) of
        Some c \<Rightarrow> c
      | None \<Rightarrow>
          (case closest region a [''A'', ''DIV'', ''LI'', ''ARTICLE'', ''SECTION''] of
             Some c \<Rightarrow> c
           | None \<Rightarrow> (case parentElement a of Some c \<Rightarrow> c | None \<Rightarrow> a)))"

text \<open>\<^verbatim>\<open>tryNode(el)\<close>: the first percentage in the text content; no text for no node.\<close>

definition tryNode :: "node option \<Rightarrow> nat option" where
  "tryNode el =
     percentRe (case el of None \<Rightarrow> [] | Some n \<Rightarrow> textContent n)"

text \<open>
  \<^verbatim>\<open>for (let j=0; j<4 && sib && val == null; j++, sib = sib.nextElementSibling)
  val = tryNode(sib);\<close> with the rounds that are left, the chain of \<^verbatim>\<open>sib\<close> and \<^verbatim>\<open>val\<close>.
\<close>

fun sibling_loop :: "nat \<Rightarrow> node list \<Rightarrow> nat option \<Rightarrow> nat option" where
  "sibling_loop 0 sibs val = val"
| "sibling_loop (Suc k) [] val = val"
| "sibling_loop (Suc k) (sib # sibs) val =
     (if val = None then sibling_loop k sibs (tryNode (Some sib)) else val)"

text \<open>
  The loop over the anchors of one company, \<^verbatim>\<open>val\<close> being the variable the loop assigns and
  each \<^verbatim>\<open>break\<close> leaving the loop with the value just assigned.
\<close>

fun anchor_loop :: "node \<Rightarrow> path list \<Rightarrow> nat option \<Rightarrow> nat option" where
  "anchor_loop region [] val = val"
| "anchor_loop region (a # as) val =
     (let container = container_of region a;
          val1 = tryNode (node_at region container)
      in if val1 \<noteq> None then val1
         else let val2 = sibling_loop 4 (nextElementSiblings_at region container) val1
              in if val2 \<noteq> None then val2
                 else let val3 = tryNode (node_at region a)
                      in if val3 \<noteq> None then val3
                         else anchor_loop region as val3)"

text \<open>The compiled-in tables.\<close>

definition CATEGORIES :: "(string \<times> string) list" where
  "CATEGORIES =
     [(''risk-assessment'', ''Risk assessment''),
      (''scheming'', ''Scheming risk prevention''),
      (''safety-research'', ''Boosting safety research''),
      (''misuse'', ''Misuse prevention''),
      (''security'', ''Prep for extreme security''),
      (''information-sharing'', ''Risk info sharing''),
      (''planning'', ''Planning'')]"


definition COMPANY_SLUG :: "(string \<times> string) list" where
  "COMPANY_SLUG =
     [(''Anthropic'', ''anthropic''), (''DeepMind'', ''deepmind''), (''OpenAI'', ''openai''),
      (''Meta'', ''meta''), (''xAI'', ''xai''), (''Microsoft'', ''microsoft''),
      (''DeepSeek'', ''deepseek'')]"

text \<open>
  \<^verbatim>\<open>extract_scores_js(h2, categorySlug, companySlugMap)\<close> for the heading that is child \<open>i\<close>
  of a parent with the child nodes \<open>kids\<close>. The region is a fresh \<^verbatim>\<open>div\<close> holding deep copies
  of the region nodes. The result object has one key per company, in the order of the
  table, and \<^verbatim>\<open>null\<close> (None) where nothing was found.
\<close>

definition region_of :: "node list \<Rightarrow> nat \<Rightarrow> node" where
  "region_of kids i = Element ''DIV'' [] (regionNodes kids i)"

definition extract_scores_js ::
  "node list \<Rightarrow> nat \<Rightarrow> string \<Rightarrow> (string \<times> string) list \<Rightarrow> (string \<times> nat option) list" where
  "extract_scores_js kids i categorySlug companySlugMap =
     map (\<lambda>(company, cslug).
            (company,
             anchor_loop (region_of kids i) (anchors (region_of kids i) cslug categorySlug) None))
         companySlugMap"

section \<open>Weight parser\<close>

text \<open>
  \<^verbatim>\<open>get_weight_js(h2)\<close>: \<^verbatim>\<open>for (let i=0; i<8 && n; i++, n = n.nextElementSibling)\<close> over the
  chain of \<^verbatim>\<open>n\<close>, returning at the first element whose trimmed rendered text matches, and
  \<^verbatim>\<open>null\<close> after the loop. The rendered text \<^verbatim>\<open>innerText\<close> of an element is computed by the
  browser from the layout; it is a parameter here.
\<close>

fun weight_loop :: "(node \<Rightarrow> string) \<Rightarrow> nat \<Rightarrow> node list \<Rightarrow> nat option" where
  "weight_loop innerText 0 ns = None"
| "weight_loop innerText (Suc k) [] = None"
| "weight_loop innerText (Suc k) (n # ns) =
     (case weightedRe (js_trim (innerText n)) of
        Some v \<Rightarrow> Some v
      | None \<Rightarrow> weight_loop innerText k ns)"

definition get_weight_js :: "(node \<Rightarrow> string) \<Rightarrow> node list \<Rightarrow> nat \<Rightarrow> nat option" where
  "get_weight_js innerText kids i = weight_loop innerText 8 (nextElementSiblings kids i)"

section \<open>The rendered-document accessor\<close>

text \<open>
  The browser is outside the program. A page is a value of a type \<open>'s\<close>; the operations
  the sources call on it are the fields of a record, and \<^verbatim>\<open>page.goto\<close> is a function from
  the address to the loaded page or the failure to load it. A locator is the description
  of elements that Playwright resolves anew at each operation: \<^verbatim>\<open>page.locator(sel,
  has_text=t)\<close>, \<^verbatim>\<open>l.locator("xpath=...")\<close> and \<^verbatim>\<open>l.first\<close>.
\<close>

datatype error = NavigationFailure | PWTimeout | OtherError

datatype locator = Locator string "string option" | Xpath locator string | First locator

record 's page_ops =
  document :: "'s \<Rightarrow> node"
  innerText :: "'s \<Rightarrow> node \<Rightarrow> string"
  count :: "'s \<Rightarrow> locator \<Rightarrow> nat"
  click :: "'s \<Rightarrow> locator \<Rightarrow> error option \<times> 's"
  scroll_into_view_if_needed :: "'s \<Rightarrow> locator \<Rightarrow> 's"
  wait_for_visible :: "'s \<Rightarrow> locator \<Rightarrow> bool"
  inner_html :: "'s \<Rightarrow> locator \<Rightarrow> string"
  inner_text :: "'s \<Rightarrow> locator \<Rightarrow> string"

text \<open>
  \<^verbatim>\<open>click\<close> gives the exception it raised, if any, and the page it leaves;
  \<^verbatim>\<open>wait_for_visible\<close> is False when \<^verbatim>\<open>wait_for(state="visible")\<close> raises its timeout.
  \<^verbatim>\<open>urljoin(BASE, rel)\<close> for the relative paths of the sources is concatenation.
\<close>

definition BASE :: string where
  "BASE = ''https://ailabwatch.org/''"

definition urljoin :: "string \<Rightarrow> string \<Rightarrow> string" where
  "urljoin base rel = base @ rel"

section \<open>Category page\<close>

record subcat =
  sc_name :: string
  sc_weight :: "nat option"
  sc_scores :: "(string \<times> nat option) list"

text \<open>\<^verbatim>\<open>page.locator("h2")\<close>: the \<^verbatim>\<open>h2\<close> elements of the document, in document order.\<close>

definition h2_paths :: "node \<Rightarrow> path list" where
  "h2_paths doc =
     filter (\<lambda>p. case node_at doc p of
                    None \<Rightarrow> False
                  | Some n \<Rightarrow> is_element n \<and> tagName n = ''H2'')
            (descendant_paths doc)"

definition siblings_of :: "node \<Rightarrow> path \<Rightarrow> node list" where
  "siblings_of doc p =
     (case node_at doc (butlast p) of None \<Rightarrow> [] | Some parent \<Rightarrow> childNodes parent)"

text \<open>
  The loop \<^verbatim>\<open>for i in range(count)\<close> of \<^verbatim>\<open>parse_category_page\<close> over the headings, with the
  list \<^verbatim>\<open>subcats\<close> it appends to.
\<close>

fun headers_loop ::
  "(node \<Rightarrow> string) \<Rightarrow> node \<Rightarrow> string \<Rightarrow> path list \<Rightarrow> subcat list \<Rightarrow> subcat list" where
  "headers_loop itext doc slug [] subcats = subcats"
| "headers_loop itext doc slug (p # ps) subcats =
     (let name = py_strip (case node_at doc p of None \<Rightarrow> [] | Some header \<Rightarrow> itext header)
      in if name = [] then headers_loop itext doc slug ps subcats
         else let weight = get_weight_js itext (siblings_of doc p) (last p);
                  scores = extract_scores_js (siblings_of doc p) (last p) slug COMPANY_SLUG
              in headers_loop itext doc slug ps
                   (subcats @ [\<lparr>sc_name = name, sc_weight = weight, sc_scores = scores\<rparr>]))"

definition parse_category_page ::
  "'s page_ops \<Rightarrow> (string \<Rightarrow> error + 's) \<Rightarrow> string \<Rightarrow> error + subcat list" where
  "parse_category_page ops goto slug =
     (case goto (urljoin BASE (''categories/'' @ slug)) of
        Inl e \<Rightarrow> Inl e
      | Inr s \<Rightarrow>
          Inr (headers_loop (innerText ops s) (document ops s) slug
                 (h2_paths (document ops s)) []))"

section \<open>Toggle expansion and rubric reader\<close>

definition toggle_xpath :: string where
  "toggle_xpath =
     ''xpath=following::*[self::button or self::div or self::span]''
     @ ''[contains(., 'Click to show details/rubric') or contains(., 'Click to hide details/rubric')][1]''"

definition rubric_xpath :: string where
  "rubric_xpath =
     ''xpath=following::*[contains(@class, 'text-sm') and contains(@class, 'links')][1]''"

text \<open>
  \<^verbatim>\<open>click_near_toggle(header)\<close>: the exception that reaches the caller, if any, and the page
  after it. The body of the \<^verbatim>\<open>try\<close> clicks when the locator counts an element; \<^verbatim>\<open>except
  Exception: pass\<close> turns whatever it raised into a normal return.
\<close>

definition click_near_toggle ::
  "'s page_ops \<Rightarrow> 's \<Rightarrow> locator \<Rightarrow> error option \<times> 's" where
  "click_near_toggle ops s header =
     (let toggle = Xpath header toggle_xpath;
          tried = (if count ops s toggle \<noteq> 0 then click ops s (First toggle) else (None, s))
      in case fst tried of
           None \<Rightarrow> (None, snd tried)
         | Some e \<Rightarrow> (None, snd tried))"

record rubric =
  description :: "string option"
  description_html :: "string option"

text \<open>
  The three assignments to \<^verbatim>\<open>header\<close>, each but the first under \<^verbatim>\<open>if await header.count()
  == 0\<close>; \<^verbatim>\<open>title.split(":")[0]\<close> is the title up to its first colon.
\<close>

definition title_prefix :: "string \<Rightarrow> string" where
  "title_prefix title = py_strip (takeWhile (\<lambda>c. c \<noteq> CHR '':'') title)"

definition resolve_header :: "'s page_ops \<Rightarrow> 's \<Rightarrow> string \<Rightarrow> locator" where
  "resolve_header ops s title =
     (let header = Locator ''h3'' (Some title);
          header = (if count ops s header = 0 then Locator ''h2'' (Some title) else header);
          header = (if count ops s header = 0
                    then Locator ''h3'' (Some (title_prefix title)) else header)
      in header)"

definition read_rubric :: "'s page_ops \<Rightarrow> 's \<Rightarrow> locator \<Rightarrow> rubric" where
  "read_rubric ops s el =
     \<lparr>description = Some (inner_text ops s el),
      description_html = Some (inner_html ops s el)\<rparr>"

definition no_rubric :: rubric where
  "no_rubric = \<lparr>description = None, description_html = None\<rparr>"

text \<open>
  One round of the loop of \<^verbatim>\<open>scrape_subcategory_rubrics\<close>: the value stored at
  \<^verbatim>\<open>rubrics[title]\<close> and the page after the round, or the exception that leaves the loop.
\<close>

definition rubric_round ::
  "'s page_ops \<Rightarrow> 's \<Rightarrow> string \<Rightarrow> error + (rubric \<times> 's)" where
  "rubric_round ops s title =
     (let header = resolve_header ops s title
      in if count ops s header = 0 then Inr (no_rubric, s)
         else let h = First header;
                  s1 = scroll_into_view_if_needed ops s h;
                  clicked = click_near_toggle ops s1 h
              in case fst clicked of
                   Some e \<Rightarrow> Inl e
                 | None \<Rightarrow>
                     (let s2 = snd clicked;
                          rubric_div = Xpath h rubric_xpath;
                          global_div = First (Locator ''css=div.text-sm.links'' None)
                      in if wait_for_visible ops s2 rubric_div
                         then Inr (read_rubric ops s2 rubric_div, s2)
                         else if count ops s2 global_div \<noteq> 0
                              then Inr (read_rubric ops s2 global_div, s2)
                              else Inr (no_rubric, s2)))"

text \<open>The page a round reads the rubric from, when it has found a heading.\<close>

definition page_after_toggle :: "'s page_ops \<Rightarrow> 's \<Rightarrow> string \<Rightarrow> 's" where
  "page_after_toggle ops s title =
     snd (click_near_toggle ops
            (scroll_into_view_if_needed ops s (First (resolve_header ops s title)))
            (First (resolve_header ops s title)))"

fun rubrics_loop ::
  "'s page_ops \<Rightarrow> 's \<Rightarrow> subcat list \<Rightarrow> (string \<rightharpoonup> rubric) \<Rightarrow> error + (string \<rightharpoonup> rubric)" where
  "rubrics_loop ops s [] rubrics = Inr rubrics"
| "rubrics_loop ops s (sc # scs) rubrics =
     (case rubric_round ops s (sc_name sc) of
        Inl e \<Rightarrow> Inl e
      | Inr (r, s') \<Rightarrow> rubrics_loop ops s' scs (rubrics(sc_name sc \<mapsto> r)))"

definition cell_url :: "string \<Rightarrow> string" where
  "cell_url slug = urljoin BASE (''cell/xai/'' @ slug)"

definition scrape_subcategory_rubrics ::
  "'s page_ops \<Rightarrow> (string \<Rightarrow> error + 's) \<Rightarrow> string \<Rightarrow> subcat list
   \<Rightarrow> error + (string \<rightharpoonup> rubric)" where
  "scrape_subcategory_rubrics ops goto slug subcats =
     (case goto (cell_url slug) of
        Inl e \<Rightarrow> Inl e
      | Inr s \<Rightarrow> rubrics_loop ops s subcats Map.empty)"

section \<open>Dataset builder\<close>

text \<open>\<^verbatim>\<open>get_category_weights\<close>: the dictionary filled title by title from the body text.\<close>

fun weights_loop ::
  "string \<Rightarrow> (string \<times> string) list \<Rightarrow> (string \<rightharpoonup> nat option) \<Rightarrow> (string \<rightharpoonup> nat option)" where
  "weights_loop body_text [] weights = weights"
| "weights_loop body_text ((slug, title) # cs) weights =
     weights_loop body_text cs (weights(title \<mapsto> category_weight_re title body_text))"

definition get_category_weights ::
  "'s page_ops \<Rightarrow> (string \<Rightarrow> error + 's) \<Rightarrow> error + (string \<rightharpoonup> nat option)" where
  "get_category_weights ops goto =
     (case goto (urljoin BASE ''categories'') of
        Inl e \<Rightarrow> Inl e
      | Inr s \<Rightarrow>
          Inr (weights_loop (inner_text ops s (Locator ''body'' None)) CATEGORIES Map.empty))"

record subcategory_out =
  out_name :: string
  out_weight :: "nat option"
  out_description :: "string option"
  out_description_html :: "string option"
  out_scores :: "(string \<times> nat option) list"

record category_out =
  category :: string
  weight :: "nat option"
  subcategories :: "subcategory_out list"

text \<open>
  \<^verbatim>\<open>d.get(k)\<close> on a dictionary whose values may be \<^verbatim>\<open>None\<close>, and
  \<^verbatim>\<open>rubrics.get(name, {}).get(field)\<close>.
\<close>

definition dict_get :: "('k \<rightharpoonup> 'v option) \<Rightarrow> 'k \<Rightarrow> 'v option" where
  "dict_get d k = (case d k of None \<Rightarrow> None | Some v \<Rightarrow> v)"

definition rubric_get ::
  "(string \<rightharpoonup> rubric) \<Rightarrow> string \<Rightarrow> (rubric \<Rightarrow> string option) \<Rightarrow> string option" where
  "rubric_get rubrics name field =
     (case rubrics name of None \<Rightarrow> None | Some r \<Rightarrow> field r)"

definition assemble :: "(string \<rightharpoonup> rubric) \<Rightarrow> subcat \<Rightarrow> subcategory_out" where
  "assemble rubrics sc =
     \<lparr>out_name = sc_name sc,
      out_weight = sc_weight sc,
      out_description = rubric_get rubrics (sc_name sc) description,
      out_description_html = rubric_get rubrics (sc_name sc) description_html,
      out_scores = sc_scores sc\<rparr>"

text \<open>
  The loop of \<^verbatim>\<open>build_dataset\<close> over the categories, with the list \<^verbatim>\<open>out\<close>. Nothing in it
  catches an exception: one raised for a category leaves the loop and the function.
\<close>

fun dataset_loop ::
  "'s page_ops \<Rightarrow> (string \<Rightarrow> error + 's) \<Rightarrow> (string \<rightharpoonup> nat option)
   \<Rightarrow> (string \<times> string) list \<Rightarrow> category_out list \<Rightarrow> error + category_out list" where
  "dataset_loop ops goto cat_weights [] out = Inr out"
| "dataset_loop ops goto cat_weights ((slug, title) # cs) out =
     (case parse_category_page ops goto slug of
        Inl e \<Rightarrow> Inl e
      | Inr subcats \<Rightarrow>
          (case scrape_subcategory_rubrics ops goto slug subcats of
             Inl e \<Rightarrow> Inl e
           | Inr rubrics \<Rightarrow>
               dataset_loop ops goto cat_weights cs
                 (out @ [\<lparr>category = title,
                          weight = dict_get cat_weights title,
                          subcategories = map (assemble rubrics) subcats\<rparr>])))"

definition build_dataset ::
  "'s page_ops \<Rightarrow> (string \<Rightarrow> error + 's) \<Rightarrow> error + category_out list" where
  "build_dataset ops goto =
     (case get_category_weights ops goto of
        Inl e \<Rightarrow> Inl e
      | Inr cat_weights \<Rightarrow> dataset_loop ops goto cat_weights CATEGORIES [])"



text \<open>
  The loop of \<^verbatim>\<open>main\<close> in \<^verbatim>\<open>ailabwatch_scraper_patched.py\<close> (and \<^verbatim>\<open>scraper-v3.py\<close>), which
  wraps each category in \<^verbatim>\<open>try\<close>/\<^verbatim>\<open>except Exception\<close> and stores the empty dictionary for
  a category that raised. \<^verbatim>\<open>extract_category\<close> is a parameter: its result is a dictionary
  from subcategory names, here a list of pairs, or the exception it raised.
\<close>

fun main_loop ::
  "(string \<Rightarrow> error + (string \<times> 'v) list) \<Rightarrow> (string \<times> string) list
   \<Rightarrow> (string \<times> (string \<times> 'v) list) list \<Rightarrow> (string \<times> (string \<times> 'v) list) list" where
  "main_loop extract_category [] out = out"
| "main_loop extract_category ((slug, cat_name) # cs) out =
     (case extract_category slug of
        Inr r \<Rightarrow> main_loop extract_category cs (AList.update cat_name r out)
      | Inl e \<Rightarrow> main_loop extract_category cs (AList.update cat_name [] out))"

definition main_patched ::
  "(string \<Rightarrow> error + (string \<times> 'v) list) \<Rightarrow> (string \<times> (string \<times> 'v) list) list" where
  "main_patched extract_category = main_loop extract_category CATEGORIES []"

section \<open>The cascade as a table of strategies\<close>

text \<open>
  The three attempts \<^verbatim>\<open>extract_scores_js\<close> makes for one anchor, each as a function of the
  region and the anchor, and the first result among a list of attempts. They are stated
  apart from the loops, to compare the loops with.
\<close>

fun first_some :: "'a option list \<Rightarrow> 'a option" where
  "first_some [] = None"
| "first_some (x # xs) = (case x of Some v \<Rightarrow> Some v | None \<Rightarrow> first_some xs)"

definition strategy_container :: "node \<Rightarrow> path \<Rightarrow> nat option" where
  "strategy_container region a = tryNode (node_at region (container_of region a))"

definition strategy_siblings :: "node \<Rightarrow> path \<Rightarrow> nat option" where
  "strategy_siblings region a =
     first_some (map (\<lambda>sib. tryNode (Some sib))
                     (take 4 (nextElementSiblings_at region (container_of region a))))"

definition strategy_reference :: "node \<Rightarrow> path \<Rightarrow> nat option" where
  "strategy_reference region a = tryNode (node_at region a)"

definition v8_cascade :: "node \<Rightarrow> path list \<Rightarrow> nat option" where
  "v8_cascade region as =
     first_some (concat (map (\<lambda>a. [strategy_container region a,
                                     strategy_siblings region a,
                                     strategy_reference region a]) as))"



section \<open>Example documents\<close>


text \<open>
  A page whose document is empty and on which no locator finds anything, and an accessor
  that loads it for every address but the category page of the second category.
\<close>

definition static_ops :: "node page_ops" where
  "static_ops =
     \<lparr>document = (\<lambda>s. s),
      innerText = (\<lambda>s n. textContent n),
      count = (\<lambda>s l. 0),
      click = (\<lambda>s l. (Some PWTimeout, s)),
      scroll_into_view_if_needed = (\<lambda>s l. s),
      wait_for_visible = (\<lambda>s l. False),
      inner_html = (\<lambda>s l. []),
      inner_text = (\<lambda>s l. textContent s)\<rparr>"

definition scheming_down :: "string \<Rightarrow> error + node" where
  "scheming_down url =
     (if url = ''https://ailabwatch.org/categories/scheming'' then Inl NavigationFailure
      else Inr (Element ''HTML'' [] []))"

text \<open>
  A page with headings and one disclosure, which a click toggles: expanded, the rubric
  node is in the document and visible; collapsed, it is not in the document. The text
  filter of a locator is a case-insensitive containment.
\<close>

record disclosure_page =
  headings :: "(string \<times> string) list"
  expanded :: bool
  content :: string

definition has_text :: "string \<Rightarrow> string \<Rightarrow> bool" where
  "has_text t tx = str_includes (map toLowerCase tx) (map toLowerCase t)"

fun disclosure_count :: "disclosure_page \<Rightarrow> locator \<Rightarrow> nat" where
  "disclosure_count s (Locator sel None) =
     (if sel = ''css=div.text-sm.links'' \<and> expanded s then 1 else 0)"
| "disclosure_count s (Locator sel (Some t)) =
     length (filter (\<lambda>(tag, tx). tag = sel \<and> has_text t tx) (headings s))"
| "disclosure_count s (First l) = min 1 (disclosure_count s l)"
| "disclosure_count s (Xpath l x) =
     (if disclosure_count s l = 0 then 0
      else if x = toggle_xpath then 1
      else if x = rubric_xpath \<and> expanded s then 1 else 0)"

definition disclosure_ops :: "disclosure_page page_ops" where
  "disclosure_ops =
     \<lparr>document = (\<lambda>s. Element ''HTML'' [] []),
      innerText = (\<lambda>s n. textContent n),
      count = disclosure_count,
      click = (\<lambda>s l. (None, s\<lparr>expanded := \<not> expanded s\<rparr>)),
      scroll_into_view_if_needed = (\<lambda>s l. s),
      wait_for_visible = (\<lambda>s l. disclosure_count s l \<noteq> 0),
      inner_html = (\<lambda>s l. ''<p>'' @ content s @ ''</p>''),
      inner_text = (\<lambda>s l. content s)\<rparr>"

definition expanded_page :: disclosure_page where
  "expanded_page = \<lparr>headings = [(''h3'', ''Evals'')], expanded = True, content = ''desc''\<rparr>"

definition collapsed_page :: disclosure_page where
  "collapsed_page = \<lparr>headings = [(''h3'', ''Evals'')], expanded = False, content = ''desc''\<rparr>"

definition all_load :: "string \<Rightarrow> error + disclosure_page" where
  "all_load url = Inr collapsed_page"

definition anthropic_down :: "string \<Rightarrow> error + disclosure_page" where
  "anthropic_down url =
     (if url = ''https://ailabwatch.org/cell/anthropic/planning'' then Inl NavigationFailure
      else Inr collapsed_page)"

definition evals_title :: string where
  "evals_title = ''Evals: domains, quality, elicitation''"

text \<open>
  Siblings of a heading: the phrase of the weight in the ninth element after it, in the
  third, and a weight above one hundred.
\<close>

definition plain :: node where
  "plain = Element ''P'' [] [TextNode ''text'']"

definition ninth_page :: "node list" where
  "ninth_page =
     [Element ''H2'' [] [TextNode ''A''],
      plain, plain, plain, plain, plain, plain, plain, plain,
      Element ''P'' [] [TextNode ''Weighted 40% of category'']]"

definition third_page :: "node list" where
  "third_page =
     [Element ''H2'' [] [TextNode ''A''],
      plain, plain,
      Element ''P'' [] [TextNode ''  Weighted 40% of category ''],
      Element ''P'' [] [TextNode ''Weighted 60% of category'']]"


text \<open>
  A card that shows 55% before the link of xAI, whose own content is 70%.
\<close>

definition card_page :: "node list" where
  "card_page =
     [Element ''H2'' [] [TextNode ''A''],
      Element ''DIV'' [(''class'', ''score-card'')]
        [Element ''SPAN'' [] [TextNode ''55%''],
         Element ''A'' [(''href'', ''/cell/xai/planning'')] [TextNode ''70%'']]]"



text \<open>A page on which every locator finds an element and every click times out.\<close>

definition stuck_ops :: "node page_ops" where
  "stuck_ops = static_ops\<lparr>count := (\<lambda>s l. 1)\<rparr>"

section \<open>Properties of the region slicer\<close>





section \<open>Properties of the dataset builder\<close>

lemma parse_category_page_first:
  "parse_category_page static_ops scheming_down ''risk-assessment'' = Inr []"
  by (simp add: parse_category_page_def scheming_down_def urljoin_def BASE_def
      static_ops_def h2_paths_def)

lemma scrape_subcategory_rubrics_first:
  "scrape_subcategory_rubrics static_ops scheming_down ''risk-assessment'' [] = Inr Map.empty"
  by (simp add: scrape_subcategory_rubrics_def cell_url_def scheming_down_def urljoin_def
      BASE_def)

lemma parse_category_page_second:
  "parse_category_page static_ops scheming_down ''scheming'' = Inl NavigationFailure"
  by (simp add: parse_category_page_def scheming_down_def urljoin_def BASE_def)

lemma get_category_weights_loads:
  "\<exists>w. get_category_weights static_ops scheming_down = Inr w"
  by (simp add: get_category_weights_def scheming_down_def urljoin_def BASE_def)

text \<open>
  C1. When the page of the second category fails to load, \<^verbatim>\<open>build_dataset\<close> of
  \<^verbatim>\<open>scraper-v8.py\<close> ends with that failure: no category is recorded, neither the first, which
  was scraped, nor the five that follow. The claim asks for an empty record and the next
  category.
\<close>

theorem build_dataset_aborts:
  "build_dataset static_ops scheming_down = Inl NavigationFailure"
  using get_category_weights_loads
  by (auto simp add: build_dataset_def CATEGORIES_def parse_category_page_first
      scrape_subcategory_rubrics_first parse_category_page_second)

text \<open>
  The loop of \<^verbatim>\<open>main\<close> with the \<^verbatim>\<open>try\<close> around each category: every category of the table has
  an entry, the empty dictionary when \<^verbatim>\<open>extract_category\<close> raised.
\<close>

lemma main_loop_map_of:
  "distinct (map snd cs) \<Longrightarrow>
   map_of (main_loop f cs out) t =
     (case find (\<lambda>(slug, title). title = t) cs of
        None \<Rightarrow> map_of out t
      | Some (slug, title) \<Rightarrow> Some (case f slug of Inl e \<Rightarrow> [] | Inr r \<Rightarrow> r))"
proof (induction cs arbitrary: out)
  case Nil
  show ?case by simp
next
  case (Cons c cs)
  obtain slug title where c: "c = (slug, title)" by (cases c)
  have d: "distinct (map snd cs)" and n: "title \<notin> snd ` set cs"
    using Cons.prems c by auto
  have nf: "title = t \<Longrightarrow> find (\<lambda>(slug, title). title = t) cs = None"
    using n by (auto simp add: find_None_iff image_iff)
  show ?case
    unfolding c using Cons.IH [OF d] nf
    by (auto simp add: update_conv' split: sum.splits option.splits)
qed

lemma find_by_title:
  "distinct (map snd cs) \<Longrightarrow> (slug, title) \<in> set cs
   \<Longrightarrow> find (\<lambda>(s, t). t = title) cs = Some (slug, title)"
proof (induction cs)
  case Nil
  then show ?case by simp
next
  case (Cons c cs)
  obtain s t where c: "c = (s, t)" by (cases c)
  show ?case
  proof (cases "t = title")
    case True
    then have "(slug, title) \<notin> set cs" using Cons.prems(1) c by (auto simp add: image_iff)
    then have "s = slug" using Cons.prems(2) c True by simp
    then show ?thesis using c True by simp
  next
    case False
    then show ?thesis using Cons c by auto
  qed
qed

lemma main_patched_continues:
  assumes "(slug, title) \<in> set CATEGORIES"
  shows "map_of (main_patched extract_category) title
           = Some (case extract_category slug of Inl e \<Rightarrow> [] | Inr r \<Rightarrow> r)"
proof -
  have d: "distinct (map snd CATEGORIES)" by (simp add: CATEGORIES_def)
  have "find (\<lambda>(s, t). t = title) CATEGORIES = Some (slug, title)"
    using d assms by (rule find_by_title)
  then show ?thesis
    unfolding main_patched_def by (simp add: main_loop_map_of [OF d])
qed




text \<open>
  C10. The rubric scrape of a category loads the cell page of xAI for that category and
  depends on no other page: two accessors that agree on this one address give the same
  rubrics, for every list of subcategories, whatever the headings resolve to.
\<close>

theorem rubrics_only_from_xai_page:
  "cell_url slug = ''https://ailabwatch.org/cell/xai/'' @ slug
   \<and> (goto1 (cell_url slug) = goto2 (cell_url slug)
        \<longrightarrow> scrape_subcategory_rubrics ops goto1 slug subcats
            = scrape_subcategory_rubrics ops goto2 slug subcats)"
  by (simp add: scrape_subcategory_rubrics_def cell_url_def urljoin_def BASE_def)

theorem rubrics_only_from_xai_page_witness:
  "cell_url ''planning'' = ''https://ailabwatch.org/cell/xai/planning''
   \<and> scrape_subcategory_rubrics disclosure_ops all_load ''planning''
        [\<lparr>sc_name = evals_title, sc_weight = None, sc_scores = []\<rparr>]
       = scrape_subcategory_rubrics disclosure_ops anthropic_down ''planning''
        [\<lparr>sc_name = evals_title, sc_weight = None, sc_scores = []\<rparr>]
   \<and> all_load ''https://ailabwatch.org/cell/anthropic/planning''
       \<noteq> anthropic_down ''https://ailabwatch.org/cell/anthropic/planning''"
proof -
  have "all_load (cell_url ''planning'') = anthropic_down (cell_url ''planning'')"
    by (simp add: urljoin_def BASE_def cell_url_def all_load_def anthropic_down_def)
  with rubrics_only_from_xai_page [of "''planning''" all_load anthropic_down disclosure_ops
      "[\<lparr>sc_name = evals_title, sc_weight = None, sc_scores = []\<rparr>]"]
  show ?thesis by (simp add: all_load_def anthropic_down_def)
qed

section \<open>Properties of the toggle controller and the rubric reader\<close>

lemma neq_xpath: "rubric_xpath \<noteq> toggle_xpath"
  by (simp add: rubric_xpath_def toggle_xpath_def)

lemma has_text_Evals: "has_text ''Evals'' ''Evals''"
  by (simp add: has_text_def toLowerCase_def)

lemma has_text_full_title: "\<not> has_text ''Evals: domains, quality, elicitation'' ''Evals''"
  by (simp add: has_text_def toLowerCase_def)

lemma title_prefix_Evals: "title_prefix ''Evals: domains, quality, elicitation'' = ''Evals''"
  by (simp add: title_prefix_def py_strip_def py_space_def)

lemma rubric_round_returns: "\<exists>r s'. rubric_round ops s title = Inr (r, s')"
  by (auto simp add: click_near_toggle_def rubric_round_def Let_def split: option.splits)

lemma resolve_header_cases:
  "resolve_header ops s title =
     (if count ops s (Locator ''h3'' (Some title)) \<noteq> 0 then Locator ''h3'' (Some title)
      else if count ops s (Locator ''h2'' (Some title)) \<noteq> 0 then Locator ''h2'' (Some title)
      else Locator ''h3'' (Some (title_prefix title)))"
  by (simp add: resolve_header_def Let_def)

lemma rubrics_loop_dom:
  "\<exists>m. rubrics_loop ops s subcats rubrics = Inr m
       \<and> dom m = dom rubrics \<union> sc_name ` set subcats"
proof (induction subcats arbitrary: s rubrics)
  case Nil
  show ?case by simp
next
  case (Cons sc scs)
  obtain r s' where r: "rubric_round ops s (sc_name sc) = Inr (r, s')"
    using rubric_round_returns [of ops s "sc_name sc"] by blast
  obtain m where m: "rubrics_loop ops s' scs (rubrics(sc_name sc \<mapsto> r)) = Inr m"
      "dom m = dom (rubrics(sc_name sc \<mapsto> r)) \<union> sc_name ` set scs"
    using Cons.IH [of s' "rubrics(sc_name sc \<mapsto> r)"] by blast
  show ?case using r m by auto
qed

text \<open>
  C7 (as amended). \<^verbatim>\<open>click_near_toggle\<close> never raises to its caller; when the locator of the
  control counts an element it performs exactly one click, and the page it leaves is the
  page that click leaves; when it counts none, the page is unchanged; when the click
  leaves the page unchanged, so does the activation; and a round of the rubric loop always
  returns. What is read afterwards is read from the page the click leaves.
\<close>

theorem click_near_toggle_once:
  "fst (click_near_toggle ops s h) = None
   \<and> (count ops s (Xpath h toggle_xpath) \<noteq> 0
        \<longrightarrow> snd (click_near_toggle ops s h) = snd (click ops s (First (Xpath h toggle_xpath))))
   \<and> (count ops s (Xpath h toggle_xpath) = 0 \<longrightarrow> snd (click_near_toggle ops s h) = s)
   \<and> (snd (click ops s (First (Xpath h toggle_xpath))) = s
        \<longrightarrow> snd (click_near_toggle ops s h) = s)
   \<and> (\<exists>r s'. rubric_round ops s title = Inr (r, s'))"
  using rubric_round_returns [of ops s title]
  by (auto simp add: click_near_toggle_def Let_def split: option.splits)

theorem click_near_toggle_once_witness:
  "count disclosure_ops expanded_page
      (Xpath (First (Locator ''h3'' (Some ''Evals''))) toggle_xpath) \<noteq> 0
   \<and> click_near_toggle disclosure_ops expanded_page (First (Locator ''h3'' (Some ''Evals'')))
       = (None, collapsed_page)
   \<and> count disclosure_ops expanded_page
      (Xpath (First (Locator ''h3'' (Some ''Safety''))) toggle_xpath) = 0
   \<and> click_near_toggle disclosure_ops expanded_page (First (Locator ''h3'' (Some ''Safety'')))
       = (None, expanded_page)
   \<and> click stuck_ops plain (First (Xpath (First (Locator ''h3'' (Some ''Evals''))) toggle_xpath))
       = (Some PWTimeout, plain)
   \<and> click_near_toggle stuck_ops plain (First (Locator ''h3'' (Some ''Evals''))) = (None, plain)
   \<and> (\<exists>r s'. rubric_round disclosure_ops expanded_page ''Evals'' = Inr (r, s'))"
proof -
  let ?h = "First (Locator ''h3'' (Some ''Evals''))"
  let ?g = "First (Locator ''h3'' (Some ''Safety''))"
  have c: "count disclosure_ops expanded_page (Xpath ?h toggle_xpath) \<noteq> 0"
    by (simp add: disclosure_ops_def expanded_page_def has_text_Evals)
  have k: "snd (click disclosure_ops expanded_page (First (Xpath ?h toggle_xpath)))
             = collapsed_page"
    by (simp add: disclosure_ops_def expanded_page_def collapsed_page_def)
  have z: "count disclosure_ops expanded_page (Xpath ?g toggle_xpath) = 0"
    by (simp add: disclosure_ops_def expanded_page_def has_text_def toLowerCase_def)
  have u: "click stuck_ops plain (First (Xpath ?h toggle_xpath)) = (Some PWTimeout, plain)"
    by (simp add: stuck_ops_def static_ops_def)
  note t1 = click_near_toggle_once [of disclosure_ops expanded_page ?h "''Evals''"]
  note t2 = click_near_toggle_once [of disclosure_ops expanded_page ?g "''Evals''"]
  note t3 = click_near_toggle_once [of stuck_ops plain ?h "''Evals''"]
  have 1: "click_near_toggle disclosure_ops expanded_page ?h = (None, collapsed_page)"
    using t1 [THEN conjunct1] t1 [THEN conjunct2, THEN conjunct1] c k
    by (simp add: prod_eq_iff)
  have 2: "click_near_toggle disclosure_ops expanded_page ?g = (None, expanded_page)"
    using t2 [THEN conjunct1] t2 [THEN conjunct2, THEN conjunct2, THEN conjunct1] z
    by (simp add: prod_eq_iff)
  have 3: "click_near_toggle stuck_ops plain ?h = (None, plain)"
    using t3 [THEN conjunct1]
      t3 [THEN conjunct2, THEN conjunct2, THEN conjunct2, THEN conjunct1] u
    by (simp add: prod_eq_iff)
  have 4: "\<exists>r s'. rubric_round disclosure_ops expanded_page ''Evals'' = Inr (r, s')"
    using t1 by (elim conjE)
  from c 1 z 2 u 3 4 show ?thesis by (intro conjI)
qed

text \<open>
  C7 as stated fails on a disclosure that a click toggles. The control is expanded and
  its rubric is visible and reads \<open>desc\<close>; the round of the rubric loop clicks the control,
  which shows its "hide" label and is matched by the locator, the disclosure collapses, and
  the rubric recorded is absent.
\<close>

theorem toggle_changes_content:
  "wait_for_visible disclosure_ops expanded_page
      (Xpath (First (Locator ''h3'' (Some ''Evals''))) rubric_xpath)
   \<and> description (read_rubric disclosure_ops expanded_page
        (Xpath (First (Locator ''h3'' (Some ''Evals''))) rubric_xpath)) = Some ''desc''
   \<and> rubric_round disclosure_ops expanded_page ''Evals'' = Inr (no_rubric, collapsed_page)"
  by (simp add: disclosure_ops_def expanded_page_def collapsed_page_def has_text_Evals neq_xpath
      read_rubric_def rubric_round_def resolve_header_def click_near_toggle_def Let_def)

text \<open>
  C8. The heading is looked up as the full title among the \<^verbatim>\<open>h3\<close>, then as the full title
  among the \<^verbatim>\<open>h2\<close>, then as the part of the title before its first colon among the \<^verbatim>\<open>h3\<close>,
  the first that counts an element being taken. When none does, both rubric fields are
  absent and the page is untouched; when a heading is found but the rubric node does not
  become visible and the document-wide node is missing too, both fields are absent. The
  entry is stored under the full title of the subcategory, and the keys of the result are
  the full titles of the subcategories.
\<close>

theorem rubric_heading_resolution:
  "resolve_header ops s title =
     (if count ops s (Locator ''h3'' (Some title)) \<noteq> 0 then Locator ''h3'' (Some title)
      else if count ops s (Locator ''h2'' (Some title)) \<noteq> 0 then Locator ''h2'' (Some title)
      else Locator ''h3'' (Some (title_prefix title)))
   \<and> (count ops s (resolve_header ops s title) = 0
        \<longrightarrow> rubric_round ops s title = Inr (no_rubric, s))
   \<and> (count ops s (resolve_header ops s title) \<noteq> 0
        \<and> \<not> wait_for_visible ops (page_after_toggle ops s title)
              (Xpath (First (resolve_header ops s title)) rubric_xpath)
        \<and> count ops (page_after_toggle ops s title)
              (First (Locator ''css=div.text-sm.links'' None)) = 0
        \<longrightarrow> rubric_round ops s title = Inr (no_rubric, page_after_toggle ops s title))
   \<and> (\<forall>r s'. rubric_round ops s (sc_name sc) = Inr (r, s')
        \<longrightarrow> rubrics_loop ops s [sc] rubrics = Inr (rubrics(sc_name sc \<mapsto> r)))
   \<and> (\<exists>m. rubrics_loop ops s subcats rubrics = Inr m
          \<and> dom m = dom rubrics \<union> sc_name ` set subcats)"
proof -
  have 2: "count ops s (resolve_header ops s title) = 0
        \<longrightarrow> rubric_round ops s title = Inr (no_rubric, s)"
    by (simp add: rubric_round_def Let_def)
  have 3: "count ops s (resolve_header ops s title) \<noteq> 0
        \<and> \<not> wait_for_visible ops (page_after_toggle ops s title)
              (Xpath (First (resolve_header ops s title)) rubric_xpath)
        \<and> count ops (page_after_toggle ops s title)
              (First (Locator ''css=div.text-sm.links'' None)) = 0
        \<longrightarrow> rubric_round ops s title = Inr (no_rubric, page_after_toggle ops s title)"
    by (simp add: rubric_round_def page_after_toggle_def click_near_toggle_def Let_def
        split: option.splits)
  have 4: "\<forall>r s'. rubric_round ops s (sc_name sc) = Inr (r, s')
        \<longrightarrow> rubrics_loop ops s [sc] rubrics = Inr (rubrics(sc_name sc \<mapsto> r))"
    by simp
  note 1 = resolve_header_cases [of ops s title]
  note 5 = rubrics_loop_dom [of ops s subcats rubrics]
  from 1 2 3 4 5 show ?thesis by - (intro conjI, assumption+)
qed

theorem rubric_heading_resolution_witness:
  "title_prefix evals_title = ''Evals''
   \<and> resolve_header disclosure_ops collapsed_page evals_title = Locator ''h3'' (Some ''Evals'')
   \<and> rubrics_loop disclosure_ops collapsed_page
        [\<lparr>sc_name = evals_title, sc_weight = None, sc_scores = []\<rparr>] Map.empty
       = Inr [evals_title \<mapsto>
               \<lparr>description = Some ''desc'', description_html = Some ''<p>desc</p>''\<rparr>]
   \<and> rubric_round disclosure_ops collapsed_page ''Safety''
       = Inr (no_rubric, collapsed_page)
   \<and> count disclosure_ops expanded_page (resolve_header disclosure_ops expanded_page ''Evals'')
       \<noteq> 0
   \<and> rubric_round disclosure_ops expanded_page ''Evals'' = Inr (no_rubric, collapsed_page)"
proof -
  have p: "title_prefix evals_title = ''Evals''"
    by (simp add: evals_title_def title_prefix_Evals)
  have c3: "count disclosure_ops collapsed_page (Locator ''h3'' (Some evals_title)) = 0"
    by (simp add: disclosure_ops_def collapsed_page_def evals_title_def has_text_full_title)
  have c2: "count disclosure_ops collapsed_page (Locator ''h2'' (Some evals_title)) = 0"
    by (simp add: disclosure_ops_def collapsed_page_def)
  have cp: "count disclosure_ops collapsed_page (Locator ''h3'' (Some ''Evals'')) = 1"
    by (simp add: disclosure_ops_def collapsed_page_def has_text_Evals)
  have rr: "rubric_round disclosure_ops collapsed_page evals_title
             = Inr (\<lparr>description = Some ''desc'', description_html = Some ''<p>desc</p>''\<rparr>,
                    expanded_page)"
    by (simp add: rubric_round_def resolve_header_def Let_def c3 c2 cp p
        click_near_toggle_def read_rubric_def)
       (simp add: disclosure_ops_def collapsed_page_def expanded_page_def has_text_Evals
        neq_xpath Let_def read_rubric_def)
  have s3: "count disclosure_ops collapsed_page (Locator ''h3'' (Some ''Safety'')) = 0"
    by (simp add: disclosure_ops_def collapsed_page_def has_text_def toLowerCase_def)
  have s2: "count disclosure_ops collapsed_page (Locator ''h2'' (Some ''Safety'')) = 0"
    by (simp add: disclosure_ops_def collapsed_page_def)
  have sp: "title_prefix ''Safety'' = ''Safety''"
    by (simp add: title_prefix_def py_strip_def py_space_def)
  note t = rubric_heading_resolution [of disclosure_ops collapsed_page]
  note x = rubric_heading_resolution [of disclosure_ops expanded_page "''Evals''"]
  have r1: "resolve_header disclosure_ops collapsed_page evals_title
              = Locator ''h3'' (Some ''Evals'')"
    using t [of evals_title, THEN conjunct1] c3 c2 p by simp
  have r2: "rubrics_loop disclosure_ops collapsed_page
        [\<lparr>sc_name = evals_title, sc_weight = None, sc_scores = []\<rparr>] Map.empty
       = Inr [evals_title \<mapsto>
               \<lparr>description = Some ''desc'', description_html = Some ''<p>desc</p>''\<rparr>]"
    using t [of evals_title "\<lparr>sc_name = evals_title, sc_weight = None, sc_scores = []\<rparr>"
        Map.empty, THEN conjunct2, THEN conjunct2, THEN conjunct2, THEN conjunct1] rr
    by simp
  have r3: "rubric_round disclosure_ops collapsed_page ''Safety''
       = Inr (no_rubric, collapsed_page)"
    using t [of "''Safety''", THEN conjunct2, THEN conjunct1]
      t [of "''Safety''", THEN conjunct1] s3 s2 sp by simp
  have e1: "resolve_header disclosure_ops expanded_page ''Evals'' = Locator ''h3'' (Some ''Evals'')"
    using x [THEN conjunct1]
    by (simp add: disclosure_ops_def expanded_page_def has_text_Evals)
  have e2: "count disclosure_ops expanded_page (Locator ''h3'' (Some ''Evals'')) \<noteq> 0"
    by (simp add: disclosure_ops_def expanded_page_def has_text_Evals)
  have e3: "page_after_toggle disclosure_ops expanded_page ''Evals'' = collapsed_page"
    unfolding page_after_toggle_def e1
    by (simp add: click_near_toggle_def disclosure_ops_def expanded_page_def collapsed_page_def
        has_text_Evals Let_def)
  have e4: "\<not> wait_for_visible disclosure_ops collapsed_page
              (Xpath (First (Locator ''h3'' (Some ''Evals''))) rubric_xpath)"
    by (simp add: disclosure_ops_def collapsed_page_def has_text_Evals neq_xpath)
  have e5: "count disclosure_ops collapsed_page (First (Locator ''css=div.text-sm.links'' None)) = 0"
    by (simp add: disclosure_ops_def collapsed_page_def)
  have r4: "rubric_round disclosure_ops expanded_page ''Evals'' = Inr (no_rubric, collapsed_page)"
    using x [THEN conjunct2, THEN conjunct2, THEN conjunct1] e2 e4 e5
    unfolding e1 e3 by simp
  have r5: "count disclosure_ops expanded_page
              (resolve_header disclosure_ops expanded_page ''Evals'') \<noteq> 0"
    unfolding e1 by (rule e2)
  from p r1 r2 r3 r5 r4 show ?thesis by (intro conjI)
qed

section \<open>Properties of the weight parser and the score extractor\<close>

lemma weight_loop_find:
  "weight_loop itext k ns =
     (case find (\<lambda>n. weightedRe (js_trim (itext n)) \<noteq> None) (take k ns) of
        None \<Rightarrow> None
      | Some n \<Rightarrow> weightedRe (js_trim (itext n)))"
  by (induction itext k ns rule: weight_loop.induct) (auto split: option.splits)

lemma sibling_loop_first_some:
  "sibling_loop k sibs val =
     (case val of
        Some v \<Rightarrow> Some v
      | None \<Rightarrow> first_some (map (\<lambda>sib. tryNode (Some sib)) (take k sibs)))"
  by (induction k sibs val rule: sibling_loop.induct) (auto split: option.splits)

lemma v8_cascade_Nil: "v8_cascade region [] = None"
  by (simp add: v8_cascade_def)

lemma v8_cascade_Cons:
  "v8_cascade region (a # as) =
     (case strategy_container region a of
        Some v \<Rightarrow> Some v
      | None \<Rightarrow>
          (case strategy_siblings region a of
             Some v \<Rightarrow> Some v
           | None \<Rightarrow>
               (case strategy_reference region a of
                  Some v \<Rightarrow> Some v
                | None \<Rightarrow> v8_cascade region as)))"
  by (simp add: v8_cascade_def split: option.splits)

lemma anchor_loop_Cons:
  "anchor_loop region (a # as) val =
     (case strategy_container region a of
        Some v \<Rightarrow> Some v
      | None \<Rightarrow>
          (case strategy_siblings region a of
             Some v \<Rightarrow> Some v
           | None \<Rightarrow>
               (case strategy_reference region a of
                  Some v \<Rightarrow> Some v
                | None \<Rightarrow> anchor_loop region as None)))"
  by (auto simp add: strategy_container_def strategy_siblings_def strategy_reference_def
      sibling_loop_first_some Let_def split: option.splits)

lemma anchor_loop_cascade: "anchor_loop region as None = v8_cascade region as"
proof (induction as)
  case Nil
  show ?case by (simp add: v8_cascade_Nil)
next
  case (Cons a as)
  show ?case unfolding anchor_loop_Cons v8_cascade_Cons Cons.IH ..
qed

lemma first_some_None: "first_some xs = None \<longleftrightarrow> (\<forall>x \<in> set xs. x = None)"
  by (induction xs) (auto split: option.splits)


lemma extract_scores_js_cascade:
  "extract_scores_js kids i slug m =
     map (\<lambda>(company, cslug).
            (company, v8_cascade (region_of kids i) (anchors (region_of kids i) cslug slug))) m"
  by (simp add: extract_scores_js_def anchor_loop_cascade)





























lemma find_in_set: "find P xs = Some x \<Longrightarrow> x \<in> set xs"
  by (induction xs) (auto split: if_splits)


text \<open>
  C6 (as amended). The weight parser of \<^verbatim>\<open>get_weight_js\<close> looks at the first eight element
  siblings after the heading and at nothing else: the weight is unknown exactly when none
  of them matches the phrase, and a weight that is found is the match of the first of them
  that matches. Unknown is None, never a number.
\<close>

theorem weight_parser_window:
  "(get_weight_js itext kids i = None
      \<longleftrightarrow> (\<forall>n \<in> set (take 8 (nextElementSiblings kids i)).
             weightedRe (js_trim (itext n)) = None))
   \<and> (\<forall>w. get_weight_js itext kids i = Some w \<longrightarrow>
        (\<exists>j < 8. j < length (nextElementSiblings kids i)
           \<and> weightedRe (js_trim (itext (nextElementSiblings kids i ! j))) = Some w
           \<and> (\<forall>j' < j. weightedRe (js_trim (itext (nextElementSiblings kids i ! j'))) = None)))"
proof -
  let ?P = "\<lambda>n. weightedRe (js_trim (itext n)) \<noteq> None"
  let ?s = "nextElementSiblings kids i"
  have g: "get_weight_js itext kids i =
             (case find ?P (take 8 ?s) of None \<Rightarrow> None
              | Some n \<Rightarrow> weightedRe (js_trim (itext n)))"
    by (simp add: get_weight_js_def weight_loop_find)
  have 1: "get_weight_js itext kids i = None
      \<longleftrightarrow> (\<forall>n \<in> set (take 8 ?s). weightedRe (js_trim (itext n)) = None)"
  proof (cases "find ?P (take 8 ?s)")
    case None
    then have "\<forall>n \<in> set (take 8 ?s). weightedRe (js_trim (itext n)) = None"
      by (auto simp add: find_None_iff)
    moreover have "get_weight_js itext kids i = None" unfolding g None by simp
    ultimately show ?thesis by simp
  next
    case (Some n)
    have n: "n \<in> set (take 8 ?s)" using Some by (rule find_in_set)
    have "?P n" using Some unfolding find_Some_iff by blast
    moreover have "get_weight_js itext kids i = weightedRe (js_trim (itext n))"
      unfolding g Some by simp
    ultimately show ?thesis using n by auto
  qed
  have 2: "\<forall>w. get_weight_js itext kids i = Some w \<longrightarrow>
        (\<exists>j < 8. j < length ?s
           \<and> weightedRe (js_trim (itext (?s ! j))) = Some w
           \<and> (\<forall>j' < j. weightedRe (js_trim (itext (?s ! j'))) = None))"
  proof (intro allI impI)
    fix w assume a: "get_weight_js itext kids i = Some w"
    then obtain n where f: "find ?P (take 8 ?s) = Some n"
      and w: "weightedRe (js_trim (itext n)) = Some w"
      unfolding g by (auto split: option.splits)
    from f obtain j where j: "j < length (take 8 ?s)" "n = take 8 ?s ! j"
      and m: "\<forall>j' < j. \<not> ?P (take 8 ?s ! j')"
      unfolding find_Some_iff by blast
    have j8: "j < 8" and jl: "j < length ?s" using j(1) by simp_all
    have n: "n = ?s ! j" using j by simp
    have "\<forall>j' < j. weightedRe (js_trim (itext (?s ! j'))) = None"
      using m j8 by auto
    with j8 jl w n show "\<exists>j < 8. j < length ?s
           \<and> weightedRe (js_trim (itext (?s ! j))) = Some w
           \<and> (\<forall>j' < j. weightedRe (js_trim (itext (?s ! j'))) = None)"
      by blast
  qed
  from 1 2 show ?thesis by (rule conjI)
qed

theorem weight_parser_window_witness:
  "get_weight_js textContent third_page 0 = Some 40
   \<and> (\<exists>j < 8. j < length (nextElementSiblings third_page 0)
         \<and> weightedRe (js_trim (textContent (nextElementSiblings third_page 0 ! j))) = Some 40
         \<and> (\<forall>j' < j. weightedRe (js_trim (textContent (nextElementSiblings third_page 0 ! j')))
                       = None))
   \<and> length (nextElementSiblings ninth_page 0) = 9
   \<and> get_weight_js textContent ninth_page 0 = None"
proof -
  have g: "get_weight_js textContent third_page 0 = Some 40" by code_simp
  have l: "length (nextElementSiblings ninth_page 0) = 9" by code_simp
  have a: "\<forall>n \<in> set (take 8 (nextElementSiblings ninth_page 0)).
             weightedRe (js_trim (textContent n)) = None" by code_simp
  have n: "get_weight_js textContent ninth_page 0 = None"
    using weight_parser_window [of textContent ninth_page 0, THEN conjunct1] a by simp
  from weight_parser_window [of textContent third_page 0, THEN conjunct2, rule_format, OF g]
    g l n
  show ?thesis by (intro conjI)
qed

text \<open>
  C6 as stated fails on a heading whose ninth element sibling carries the phrase: it is
  inside a window of ten elements and matches the pattern, and the weight is unknown.
\<close>

theorem weight_parser_misses_ninth:
  "weightedRe (js_trim (textContent (nextElementSiblings ninth_page 0 ! 8))) = Some 40
   \<and> get_weight_js textContent ninth_page 0 = None"
  by code_simp




text \<open>
  C2 (as amended). \<^verbatim>\<open>extract_scores_js\<close> gives every company the first result of the table
  of attempts over the matching anchors in document order, three attempts per anchor in
  this order: the container the climb ends at, the four element siblings after the
  container, the anchor itself. The first attempt that yields a percentage decides and no
  later one is made. There is no attempt on a label followed by a percentage, and the
  anchor's own content comes last.
\<close>

theorem score_cascade_order:
  "extract_scores_js kids i slug m =
     map (\<lambda>(company, cslug).
            (company, v8_cascade (region_of kids i) (anchors (region_of kids i) cslug slug))) m
   \<and> anchor_loop region [] None = None
   \<and> anchor_loop region (a # as) val =
       (case strategy_container region a of
          Some v \<Rightarrow> Some v
        | None \<Rightarrow>
            (case strategy_siblings region a of
               Some v \<Rightarrow> Some v
             | None \<Rightarrow>
                 (case strategy_reference region a of
                    Some v \<Rightarrow> Some v
                  | None \<Rightarrow> anchor_loop region as None)))"
  using extract_scores_js_cascade [of kids i slug m] anchor_loop_Cons [of region a as val]
  by simp

theorem score_cascade_order_witness:
  "strategy_container (region_of card_page 0) [0, 1] = Some 55
   \<and> anchor_loop (region_of card_page 0) [[0, 1]] None = Some 55
   \<and> map_of (extract_scores_js card_page 0 ''planning'' COMPANY_SLUG) ''xAI'' = Some (Some 55)"
proof -
  have c: "strategy_container (region_of card_page 0) [0, 1] = Some 55" by code_simp
  have m: "map_of (extract_scores_js card_page 0 ''planning'' COMPANY_SLUG) ''xAI''
             = Some (Some 55)" by code_simp
  from score_cascade_order [of card_page 0 "''planning''" COMPANY_SLUG "region_of card_page 0"
      "[0, 1]" "[]" None, THEN conjunct2, THEN conjunct2] c m
  show ?thesis by simp
qed

text \<open>
  C2 as stated fails on a card that shows 55% before the link of xAI whose own content
  is 70%: the content of the matched reference, the second tier of the claim, yields 70,
  and the score is the 55 of the container, the third tier.
\<close>

theorem container_overrides_reference:
  "anchors (region_of card_page 0) ''xai'' ''planning'' = [[0, 1]]
   \<and> strategy_reference (region_of card_page 0) [0, 1] = Some 70
   \<and> map_of (extract_scores_js card_page 0 ''planning'' COMPANY_SLUG) ''xAI'' = Some (Some 55)"
  by code_simp





end
